theory Spec2Isabelle
  imports Main "HOL-Library.AList" "HOL-Library.Word"
begin

section \<open>The network layer of the game engine\<close>

text \<open>
  The two source files carry the same network layer: the enumeration \<open>PacketType\<close>, the
  class \<open>NetworkManager\<close> (host loop, client loop, packet codec, message queue) and
  \<open>GameEngine._handle_network_message\<close> (the consumer side). This theory embeds that
  layer function by function.

  Library calls are parameters of the model, never invented behaviour:
  \<^item> \<open>loads\<close> stands for \<open>json.loads(data.decode())\<close>: it maps the bytes of a datagram to an
    exception or to the decoded JSON value;
  \<^item> \<open>txt\<close> stands for the text \<open>json.dumps\<close> emits for a value it can serialize;
  \<^item> \<open>ident\<close> stands for \<open>hashlib.md5(f"{addr}".encode()).hexdigest()[:8]\<close>;
  \<^item> \<open>now\<close> stands for the reading of \<open>time.time()\<close>.
  Every theorem below holds for all values of these parameters.

  Strings are lists of 8-bit characters; the field names, identities and datagrams of the
  source are ASCII. Failures of the socket itself (\<open>recvfrom\<close> timing out, \<open>sendto\<close>
  failing) are outside the model: a step is the handling of one received datagram.
\<close>

subsection \<open>Values\<close>

text \<open>\<open>class PacketType(Enum)\<close>: a plain \<open>Enum\<close>, not an \<open>IntEnum\<close>.\<close>

datatype PacketType =
  CONNECT | DISCONNECT | PLAYER_UPDATE | CHAT_MESSAGE | BATTLE_REQUEST
| BATTLE_ACTION | WORLD_STATE | DOWNLOAD_PLAY | PATCH_SYNC

text \<open>A Python float is an IEEE-754 double; the model keeps its bit pattern.\<close>

type_synonym pyfloat = "64 word"

text \<open>
  The values \<open>json.loads\<close> returns: \<open>None\<close>, \<open>bool\<close>, \<open>int\<close>, \<open>float\<close>, \<open>str\<close>, \<open>list\<close> and
  \<open>dict\<close> with string keys. A dictionary is an association list in insertion order, as
  Python keeps it. No member of \<open>PacketType\<close> is among these values.
\<close>

datatype json =
  JNull | JBool bool | JInt int | JFloat pyfloat | JStr string
| JList "json list" | JObj "(string \<times> json) list"

text \<open>
  The objects handed to \<open>json.dumps\<close>: the packet dictionary built by \<open>_create_packet\<close>
  holds an enumeration member, a float and the payload.
\<close>

datatype pyval =
  PEnum PacketType | PFloat pyfloat | PJson json | PDict "(string \<times> pyval) list"

text \<open>
  The exceptions the modelled code can raise. \<open>JSONDecodeError\<close> and
  \<open>UnicodeDecodeError\<close> are what \<open>json.loads(data.decode())\<close> raises on bytes that are not
  JSON text. \<open>NotModelled\<close> is no Python exception: it marks the two places where the
  code would create a dictionary key that is not a string, which the type \<open>json\<close> cannot
  hold.
\<close>

datatype error =
  TypeError | KeyError | AttributeError | ValueError
| JSONDecodeError | UnicodeDecodeError | NotModelled

type_synonym bytes = string
type_synonym addr = "string \<times> nat"
type_synonym 'v dict = "(string \<times> 'v) list"


subsection \<open>Python operations on the values\<close>

text \<open>\<open>obj[key]\<close> with a string key: only a dictionary supports it.\<close>

fun getitem :: "json \<Rightarrow> string \<Rightarrow> error + json" where
  "getitem (JObj d) k = (case map_of d k of None \<Rightarrow> Inl KeyError | Some v \<Rightarrow> Inr v)"
| "getitem v k = Inl TypeError"

text \<open>
  \<open>x == PacketType.M\<close>. \<open>Enum\<close> defines no \<open>__eq__\<close>, so a member is equal to itself
  only: the comparison with any other object, an \<open>int\<close> or a \<open>str\<close> included, is \<open>False\<close>.
\<close>

fun eq_member :: "pyval \<Rightarrow> PacketType \<Rightarrow> bool" where
  "eq_member (PEnum m) t = (m = t)"
| "eq_member v t = False"

text \<open>Truth value of a decoded value, as \<open>if player_id:\<close> tests it.\<close>

fun truthy :: "json \<Rightarrow> bool" where
  "truthy JNull = False"
| "truthy (JBool b) = b"
| "truthy (JInt i) = (i \<noteq> 0)"
| "truthy (JFloat x) = (x \<noteq> 0 \<and> x \<noteq> push_bit 63 1)"
| "truthy (JStr s) = (s \<noteq> [])"
| "truthy (JList xs) = (xs \<noteq> [])"
| "truthy (JObj d) = (d \<noteq> [])"

text \<open>
  One element of a sequence given to \<open>dict.update\<close>: it must be a sequence of length two,
  read as key and value. A two-character string gives its characters, a two-key dictionary
  its keys; a list or dictionary as key is unhashable.
\<close>

definition update_pair :: "json \<Rightarrow> error + string \<times> json" where
  "update_pair e =
     (case e of
        JList xs \<Rightarrow>
          (case xs of
             [k, v] \<Rightarrow>
               (case k of
                  JStr s \<Rightarrow> Inr (s, v)
                | JList _ \<Rightarrow> Inl TypeError
                | JObj _ \<Rightarrow> Inl TypeError
                | _ \<Rightarrow> Inl NotModelled)
           | _ \<Rightarrow> Inl ValueError)
      | JStr s \<Rightarrow> (case s of [a, b] \<Rightarrow> Inr ([a], JStr [b]) | _ \<Rightarrow> Inl ValueError)
      | JObj d \<Rightarrow> (case d of [(k1, _), (k2, _)] \<Rightarrow> Inr (k1, JStr k2) | _ \<Rightarrow> Inl ValueError)
      | _ \<Rightarrow> Inl TypeError)"

text \<open>
  The elements are merged one by one; an exception leaves the entries merged so far in
  place, since Python updates the dictionary object itself.
\<close>

fun update_pairs :: "json dict \<Rightarrow> json list \<Rightarrow> json dict \<times> error option" where
  "update_pairs d [] = (d, None)"
| "update_pairs d (e # es) =
     (case update_pair e of
        Inl err \<Rightarrow> (d, Some err)
      | Inr (k, v) \<Rightarrow> update_pairs (AList.update k v d) es)"

text \<open>
  \<open>d.update(arg)\<close> on a dictionary \<open>d\<close>. A dictionary argument is merged key by key in its
  own order: a key already present keeps its position and takes the new value, a new key
  is appended. A string is iterated character by character, a list element by element;
  anything else is not iterable.
\<close>

fun dict_update :: "json dict \<Rightarrow> json \<Rightarrow> json dict \<times> error option" where
  "dict_update d (JObj u) = (fold (\<lambda>(k, v). AList.update k v) u d, None)"
| "dict_update d (JList es) = update_pairs d es"
| "dict_update d (JStr s) = update_pairs d (map (\<lambda>c. JStr [c]) s)"
| "dict_update d v = (d, Some TypeError)"

subsection \<open>Packet codec\<close>

text \<open>
  \<open>json.dumps\<close> raises \<open>TypeError\<close> on the first object it has no encoding for; the
  members of \<open>PacketType\<close> are such objects. Otherwise it returns the text.
\<close>

fun serializable :: "pyval \<Rightarrow> bool" where
  "serializable (PEnum t) = False"
| "serializable (PFloat x) = True"
| "serializable (PJson v) = True"
| "serializable (PDict kvs) = list_all serializable (map snd kvs)"

definition json_dumps :: "(pyval \<Rightarrow> string) \<Rightarrow> pyval \<Rightarrow> error + string" where
  "json_dumps txt v = (if serializable v then Inr (txt v) else Inl TypeError)"

text \<open>
  \<open>_create_packet(packet_type, data)\<close>: builds the dictionary and returns
  \<open>json.dumps(packet).encode()\<close>. The text of \<open>json.dumps\<close> is ASCII, so \<open>encode\<close> keeps it.
\<close>

definition create_packet ::
  "(pyval \<Rightarrow> string) \<Rightarrow> PacketType \<Rightarrow> pyfloat \<Rightarrow> json \<Rightarrow> error + bytes" where
  "create_packet txt packet_type now data =
     json_dumps txt
       (PDict [(''type'', PEnum packet_type), (''timestamp'', PFloat now),
               (''data'', PJson data)])"

text \<open>\<open>_parse_packet(data)\<close>: returns \<open>json.loads(data.decode())\<close>, whatever its shape.\<close>

definition parse_packet :: "(bytes \<Rightarrow> error + json) \<Rightarrow> bytes \<Rightarrow> error + json" where
  "parse_packet loads data = loads data"


subsection \<open>Relay host\<close>

text \<open>
  \<open>self.clients\<close> maps a sender address to its identity, \<open>self.players\<close> maps an identity
  to the stored snapshot. Both are dictionaries in insertion order.
\<close>

record host =
  clients :: "(addr \<times> string) list"
  players :: "json dict"

definition initial_host :: host where
  "initial_host = \<lparr>clients = [], players = []\<rparr>"

text \<open>
  One pass through the body of \<open>while self.is_server\<close> yields the host state afterwards,
  the datagrams handed to \<open>sendto\<close> in order, and the exception caught by
  \<open>except Exception\<close> (and printed), if one was raised.
\<close>

type_synonym outcome = "host \<times> (bytes \<times> addr) list \<times> error option"

text \<open>
  The \<open>CONNECT\<close> branch. The client map is assigned before \<open>packet['data']\<close> is read, and
  both assignments are done before the reply is built.
\<close>

definition on_connect ::
  "(pyval \<Rightarrow> string) \<Rightarrow> (addr \<Rightarrow> string) \<Rightarrow> pyfloat \<Rightarrow> host \<Rightarrow> json \<Rightarrow> addr \<Rightarrow> outcome" where
  "on_connect txt ident now st packet addr =
     (let player_id = ident addr;
          st1 = st\<lparr>clients := AList.update addr player_id (clients st)\<rparr>
      in case getitem packet ''data'' of
           Inl e \<Rightarrow> (st1, [], Some e)
         | Inr d \<Rightarrow>
             (let st2 = st1\<lparr>players := AList.update player_id d (players st1)\<rparr>
              in case create_packet txt WORLD_STATE now (JObj (players st2)) of
                   Inl e \<Rightarrow> (st2, [], Some e)
                 | Inr world_packet \<Rightarrow> (st2, [(world_packet, addr)], None)))"

text \<open>
  The broadcast loop of the \<open>PLAYER_UPDATE\<close> branch: the received bytes go to every key of
  the client map other than the sender, in the order of the map.
\<close>

definition broadcast :: "(addr \<times> string) list \<Rightarrow> bytes \<Rightarrow> addr \<Rightarrow> (bytes \<times> addr) list" where
  "broadcast cs data addr = map (\<lambda>c. (data, fst c)) (filter (\<lambda>c. fst c \<noteq> addr) cs)"

text \<open>
  The \<open>PLAYER_UPDATE\<close> branch. \<open>self.players[player_id]\<close> raises \<open>KeyError\<close> when the
  identity has no snapshot; a stored value that is no dictionary has no \<open>update\<close>
  attribute; nothing is forwarded when the merge raises.
\<close>

definition on_player_update :: "host \<Rightarrow> json \<Rightarrow> bytes \<Rightarrow> addr \<Rightarrow> outcome" where
  "on_player_update st packet data addr =
     (case map_of (clients st) addr of
        None \<Rightarrow> (st, [], None)
      | Some player_id \<Rightarrow>
          (case map_of (players st) player_id of
             None \<Rightarrow> (st, [], Some KeyError)
           | Some snapshot \<Rightarrow>
               (case snapshot of
                  JObj d \<Rightarrow>
                    (case getitem packet ''data'' of
                       Inl e \<Rightarrow> (st, [], Some e)
                     | Inr u \<Rightarrow>
                         (let (d', r) = dict_update d u;
                              st' = st\<lparr>players := AList.update player_id (JObj d') (players st)\<rparr>
                          in case r of
                               Some e \<Rightarrow> (st', [], Some e)
                             | None \<Rightarrow> (st', broadcast (clients st) data addr, None)))
                | _ \<Rightarrow> (st, [], Some AttributeError))))"

text \<open>
  The \<open>DISCONNECT\<close> branch: \<open>del self.clients[addr]\<close> comes first, then
  \<open>del self.players[player_id]\<close>, which raises \<open>KeyError\<close> on an absent identity.
\<close>

definition on_disconnect :: "host \<Rightarrow> addr \<Rightarrow> outcome" where
  "on_disconnect st addr =
     (case map_of (clients st) addr of
        None \<Rightarrow> (st, [], None)
      | Some player_id \<Rightarrow>
          (let st1 = st\<lparr>clients := AList.delete addr (clients st)\<rparr>
           in case map_of (players st1) player_id of
                None \<Rightarrow> (st1, [], Some KeyError)
              | Some _ \<Rightarrow> (st1\<lparr>players := AList.delete player_id (players st1)\<rparr>, [], None)))"

text \<open>
  The body of the host loop for one received datagram \<open>(data, addr)\<close>: decode, read
  \<open>packet['type']\<close>, compare it with the three members in the order of the source.
  The value compared is a decoded JSON value.
\<close>

definition server_step ::
  "(bytes \<Rightarrow> error + json) \<Rightarrow> (pyval \<Rightarrow> string) \<Rightarrow> (addr \<Rightarrow> string)
     \<Rightarrow> host \<Rightarrow> bytes \<times> addr \<times> pyfloat \<Rightarrow> outcome" where
  "server_step loads txt ident st dg =
     (case dg of (data, addr, now) \<Rightarrow>
        (case parse_packet loads data of
           Inl e \<Rightarrow> (st, [], Some e)
         | Inr packet \<Rightarrow>
             (case getitem packet ''type'' of
                Inl e \<Rightarrow> (st, [], Some e)
              | Inr ty \<Rightarrow>
                  if eq_member (PJson ty) CONNECT then on_connect txt ident now st packet addr
                  else if eq_member (PJson ty) PLAYER_UPDATE then on_player_update st packet data addr
                  else if eq_member (PJson ty) DISCONNECT then on_disconnect st addr
                  else (st, [], None))))"

text \<open>
  The loop over a sequence of received datagrams: the state is threaded through, the
  datagrams sent are collected in order. A caught exception does not stop the loop.
\<close>

fun server_loop ::
  "(bytes \<Rightarrow> error + json) \<Rightarrow> (pyval \<Rightarrow> string) \<Rightarrow> (addr \<Rightarrow> string)
     \<Rightarrow> host \<Rightarrow> (bytes \<times> addr \<times> pyfloat) list \<Rightarrow> host \<times> (bytes \<times> addr) list" where
  "server_loop loads txt ident st [] = (st, [])"
| "server_loop loads txt ident st (dg # dgs) =
     (case server_step loads txt ident st dg of
        (st', out, _) \<Rightarrow>
          (case server_loop loads txt ident st' dgs of
             (st'', out') \<Rightarrow> (st'', out @ out')))"

subsection \<open>Peer client and consumer\<close>

text \<open>
  The body of the client loop for one received datagram: decode and put the value on the
  message queue. A decoding exception is caught and printed; the queue is left as it was.
\<close>

definition client_step ::
  "(bytes \<Rightarrow> error + json) \<Rightarrow> json list \<Rightarrow> bytes \<Rightarrow> json list \<times> error option" where
  "client_step loads queue data =
     (case parse_packet loads data of
        Inl e \<Rightarrow> (queue, Some e)
      | Inr packet \<Rightarrow> (queue @ [packet], None))"

text \<open>\<open>get_messages()\<close>: returns everything queued, oldest first, and leaves the queue empty.\<close>

definition get_messages :: "json list \<Rightarrow> json list \<times> json list" where
  "get_messages queue = (queue, [])"

text \<open>
  One turn of the loop of the \<open>WORLD_STATE\<close> branch: an unknown identity is inserted, a
  known one has the incoming fields merged into its stored dictionary.
\<close>

definition world_entry :: "json dict \<Rightarrow> string \<times> json \<Rightarrow> json dict \<times> error option" where
  "world_entry reg entry =
     (case entry of (player_id, player_data) \<Rightarrow>
        (case map_of reg player_id of
           None \<Rightarrow> (AList.update player_id player_data reg, None)
         | Some stored \<Rightarrow>
             (case stored of
                JObj d \<Rightarrow>
                  (let (d', r) = dict_update d player_data
                   in (AList.update player_id (JObj d') reg, r))
              | _ \<Rightarrow> (reg, Some AttributeError))))"

fun world_entries :: "json dict \<Rightarrow> (string \<times> json) list \<Rightarrow> json dict \<times> error option" where
  "world_entries reg [] = (reg, None)"
| "world_entries reg (entry # rest) =
     (case world_entry reg entry of
        (reg', Some e) \<Rightarrow> (reg', Some e)
      | (reg', None) \<Rightarrow> world_entries reg' rest)"

text \<open>The \<open>WORLD_STATE\<close> branch: \<open>msg['data'].items()\<close> needs a dictionary.\<close>

definition on_world_state :: "json dict \<Rightarrow> json \<Rightarrow> json dict \<times> error option" where
  "on_world_state reg msg =
     (case getitem msg ''data'' of
        Inl e \<Rightarrow> (reg, Some e)
      | Inr payload \<Rightarrow>
          (case payload of
             JObj items \<Rightarrow> world_entries reg items
           | _ \<Rightarrow> (reg, Some AttributeError)))"

text \<open>
  The \<open>PLAYER_UPDATE\<close> branch of the consumer: \<open>player_data.get('player_id')\<close> needs a
  dictionary and gives \<open>None\<close> for a missing key; a true value becomes the key under which
  the whole payload replaces the stored entry.
\<close>

definition on_player_update_msg :: "json dict \<Rightarrow> json \<Rightarrow> json dict \<times> error option" where
  "on_player_update_msg reg msg =
     (case getitem msg ''data'' of
        Inl e \<Rightarrow> (reg, Some e)
      | Inr player_data \<Rightarrow>
          (case player_data of
             JObj d \<Rightarrow>
               (let player_id = (case map_of d ''player_id'' of None \<Rightarrow> JNull | Some v \<Rightarrow> v)
                in if truthy player_id then
                     (case player_id of
                        JStr s \<Rightarrow> (AList.update s player_data reg, None)
                      | JList _ \<Rightarrow> (reg, Some TypeError)
                      | JObj _ \<Rightarrow> (reg, Some TypeError)
                      | _ \<Rightarrow> (reg, Some NotModelled))
                   else (reg, None))
           | _ \<Rightarrow> (reg, Some AttributeError)))"

text \<open>
  \<open>_handle_network_message(msg)\<close>: the registry afterwards and the exception that leaves
  the function, if any (nothing catches it in \<open>GameEngine.update\<close>).
\<close>

definition handle_network_message :: "json dict \<Rightarrow> json \<Rightarrow> json dict \<times> error option" where
  "handle_network_message reg msg =
     (case getitem msg ''type'' of
        Inl e \<Rightarrow> (reg, Some e)
      | Inr ty \<Rightarrow>
          if eq_member (PJson ty) WORLD_STATE then on_world_state reg msg
          else if eq_member (PJson ty) PLAYER_UPDATE then on_player_update_msg reg msg
          else (reg, None))"

subsection \<open>The registry invariant\<close>

text \<open>
  The identities stored in the client map are exactly the keys of the player registry;
  and every stored identity is the one derived from its address.
\<close>

definition reg_inv :: "host \<Rightarrow> bool" where
  "reg_inv st = (snd ` set (clients st) = fst ` set (players st))"

definition ids_derived :: "(addr \<Rightarrow> string) \<Rightarrow> host \<Rightarrow> bool" where
  "ids_derived ident st = list_all (\<lambda>c. snd c = ident (fst c)) (clients st)"

subsection \<open>Concrete addresses, datagrams and host states\<close>

text \<open>
  Four sender addresses and the first eight hexadecimal digits of the MD5 digest of their
  formatted text, e.g. of \<open>('10.0.0.1', 5000)\<close>; \<open>md5_prefix\<close> gives the last value to every
  other address.
\<close>

definition peer_a :: addr where
  "peer_a = (''10.0.0.1'', 5000)"

definition peer_b :: addr where
  "peer_b = (''10.0.0.2'', 5000)"

definition peer_c :: addr where
  "peer_c = (''10.0.0.3'', 5000)"

definition stranger :: addr where
  "stranger = (''10.0.0.9'', 5000)"

definition md5_prefix :: "addr \<Rightarrow> string" where
  "md5_prefix a =
     (if a = peer_a then ''e7291c23''
      else if a = peer_b then ''973461cf''
      else if a = peer_c then ''95f644b7''
      else ''0b8f24d8'')"

text \<open>
  Datagrams, each with the value \<open>json.loads\<close> returns for it. The type tags are the
  numbers of the enumeration (1 \<open>CONNECT\<close>, 2 \<open>DISCONNECT\<close>, 3 \<open>PLAYER_UPDATE\<close>); the time
  stamp \<open>0.0\<close> is the float with bit pattern 0.
\<close>

definition bytes_connect_player :: bytes where
  \<open>bytes_connect_player = ''{"type": 1, "timestamp": 0.0, "data": {"name": "Player"}}''\<close>

definition packet_connect_player :: json where
  "packet_connect_player =
     JObj [(''type'', JInt 1), (''timestamp'', JFloat 0),
           (''data'', JObj [(''name'', JStr ''Player'')])]"

definition bytes_connect_xy :: bytes where
  \<open>bytes_connect_xy = ''{"type": 1, "timestamp": 0.0, "data": {"x": 1, "y": 2}}''\<close>

definition packet_connect_xy :: json where
  "packet_connect_xy =
     JObj [(''type'', JInt 1), (''timestamp'', JFloat 0),
           (''data'', JObj [(''x'', JInt 1), (''y'', JInt 2)])]"

definition bytes_update_x5 :: bytes where
  \<open>bytes_update_x5 = ''{"type": 3, "timestamp": 0.0, "data": {"x": 5}}''\<close>

definition packet_update_x5 :: json where
  "packet_update_x5 =
     JObj [(''type'', JInt 3), (''timestamp'', JFloat 0), (''data'', JObj [(''x'', JInt 5)])]"

definition bytes_update_xy :: bytes where
  \<open>bytes_update_xy = ''{"type": 3, "timestamp": 0.0, "data": {"x": 10, "y": 20}}''\<close>

definition packet_update_xy :: json where
  "packet_update_xy =
     JObj [(''type'', JInt 3), (''timestamp'', JFloat 0),
           (''data'', JObj [(''x'', JInt 10), (''y'', JInt 20)])]"

definition bytes_disconnect :: bytes where
  \<open>bytes_disconnect = ''{"type": 2, "timestamp": 0.0, "data": {}}''\<close>

definition packet_disconnect :: json where
  "packet_disconnect =
     JObj [(''type'', JInt 2), (''timestamp'', JFloat 0), (''data'', JObj [])]"


text \<open>A datagram cut off in the middle of a key: \<open>json.loads\<close> raises \<open>JSONDecodeError\<close>.\<close>

definition bytes_truncated :: bytes where
  \<open>bytes_truncated = ''{"type": 3, "timesta''\<close>

text \<open>
  \<open>json.loads(data.decode())\<close> at the datagrams above and at the one-byte datagram \<open>5\<close>.
  The table is used at these datagrams only.
\<close>

definition decode_table :: "bytes \<Rightarrow> error + json" where
  "decode_table bs =
     (if bs = bytes_connect_player then Inr packet_connect_player
      else if bs = bytes_connect_xy then Inr packet_connect_xy
      else if bs = bytes_update_x5 then Inr packet_update_x5
      else if bs = bytes_update_xy then Inr packet_update_xy
      else if bs = bytes_disconnect then Inr packet_disconnect
      else if bs = ''5'' then Inr (JInt 5)
      else Inl JSONDecodeError)"

text \<open>
  The text of \<open>json.dumps\<close> for a dictionary with one string field whose value needs no
  escape, e.g. \<open>{"name": "aaa"}\<close>. It is used at two payloads only: \<open>long_name\<close>, whose text
  has 1112 bytes, and \<open>short_name\<close>, whose text has 13.
\<close>

definition dumps_one_field :: "pyval \<Rightarrow> string" where
  \<open>dumps_one_field v =
     (case v of
        PJson (JObj [(k, JStr s)]) \<Rightarrow> ''{"'' @ k @ ''": "'' @ s @ ''"}''
      | _ \<Rightarrow> [])\<close>



text \<open>
  Host states in which peers are registered: \<open>peer_a\<close> with the snapshot \<open>{x: 1, y: 2}\<close>,
  \<open>peer_a\<close> with the snapshot \<open>{name: Player}\<close> that \<open>connect_client\<close> announces, and the
  three peers with empty snapshots.
\<close>

definition host_a :: host where
  "host_a = \<lparr>clients = [(peer_a, ''e7291c23'')],
             players = [(''e7291c23'', JObj [(''x'', JInt 1), (''y'', JInt 2)])]\<rparr>"

definition host_named :: host where
  "host_named = \<lparr>clients = [(peer_a, ''e7291c23'')],
                 players = [(''e7291c23'', JObj [(''name'', JStr ''Player'')])]\<rparr>"

definition host_abc :: host where
  "host_abc =
     \<lparr>clients = [(peer_a, ''e7291c23''), (peer_b, ''973461cf''), (peer_c, ''95f644b7'')],
      players = [(''e7291c23'', JObj []), (''973461cf'', JObj []), (''95f644b7'', JObj [])]\<rparr>"




lemmas example_defs =
  peer_a_def peer_b_def peer_c_def stranger_def md5_prefix_def
  bytes_connect_player_def packet_connect_player_def bytes_connect_xy_def packet_connect_xy_def
  bytes_update_x5_def packet_update_x5_def bytes_update_xy_def packet_update_xy_def
  bytes_disconnect_def packet_disconnect_def bytes_truncated_def decode_table_def
  host_a_def host_named_def host_abc_def

section \<open>What the code does with a packet type\<close>

text \<open>
  Two facts decide most of what follows. Both come from \<open>PacketType\<close> being a plain
  \<open>Enum\<close> whose members meet JSON on the way out and on the way in.

  On the way out, \<open>_create_packet\<close> puts the member into the dictionary it serializes, and
  \<open>json.dumps\<close> has no encoding for it.
\<close>

lemma json_dumps_member: "json_dumps txt (PDict ((k, PEnum t) # kvs)) = Inl TypeError"
  by (simp add: json_dumps_def)

lemma create_packet_raises: "create_packet txt packet_type now data = Inl TypeError"
  unfolding create_packet_def by (rule json_dumps_member)

text \<open>The payload on its own is serialized whole, whatever its length.\<close>

lemma payload_serialized_whole: "json_dumps txt (PJson data) = Inr (txt (PJson data))"
  by (simp add: json_dumps_def)

text \<open>
  On the way in, \<open>packet['type']\<close> is a decoded value, and no decoded value is equal to a
  member. So none of the three branches of the host loop is ever entered, and neither
  branch of the consumer.
\<close>

lemma eq_member_decoded: "eq_member (PJson v) t = False"
  by simp

lemma server_step_inert: "\<exists>r. server_step loads txt ident st dg = (st, [], r)"
  by (cases dg) (auto simp: server_step_def split: sum.splits)

lemma server_step_state [simp]: "fst (server_step loads txt ident st dg) = st"
  using server_step_inert [of loads "txt" ident st dg] by auto

lemma server_step_sends [simp]: "fst (snd (server_step loads txt ident st dg)) = []"
  using server_step_inert [of loads "txt" ident st dg] by auto

lemma server_loop_inert: "server_loop loads txt ident st dgs = (st, [])"
proof (induction dgs)
  case Nil
  show ?case by simp
next
  case (Cons dg dgs)
  obtain r where "server_step loads txt ident st dg = (st, [], r)"
    using server_step_inert by blast
  with Cons show ?case by simp
qed

lemma handle_network_message_inert: "fst (handle_network_message reg msg) = reg"
  by (auto simp: handle_network_message_def split: sum.splits)

section \<open>What the branches do when they run\<close>

subsection \<open>Dictionaries\<close>

lemma map_of_fold_update:
  "distinct (map fst u) \<Longrightarrow>
   map_of (fold (\<lambda>(k, v). AList.update k v) u d) = map_of d ++ map_of u"
proof (induction u arbitrary: d)
  case Nil
  show ?case by simp
next
  case (Cons p u)
  obtain k v where p: "p = (k, v)" by (cases p)
  from Cons.prems p have nk: "map_of u k = None" and du: "distinct (map fst u)"
    by (auto simp: map_of_eq_None_iff)
  have "map_of (fold (\<lambda>(k, v). AList.update k v) (p # u) d)
        = map_of (AList.update k v d) ++ map_of u"
    using Cons.IH [OF du] p by simp
  also have "\<dots> = map_of d ++ map_of (p # u)"
    using nk p by (auto simp: update_conv' map_add_def fun_eq_iff split: option.splits)
  finally show ?case .
qed

lemma fst_set_delete: "fst ` set (AList.delete k al) = fst ` set al - {k}"
  by (induction al) auto

lemma map_of_in_keys: "map_of al k = Some v \<Longrightarrow> k \<in> fst ` set al"
  by (force dest!: map_of_SomeD)

lemma snd_set_update_derived:
  assumes "list_all (\<lambda>c. snd c = f (fst c)) cs"
  shows "snd ` set (AList.update a (f a) cs) = insert (f a) (snd ` set cs)"
  using assms by (induction cs) auto

lemma list_all_update_derived:
  assumes "list_all (\<lambda>c. snd c = f (fst c)) cs"
  shows "list_all (\<lambda>c. snd c = f (fst c)) (AList.update a (f a) cs)"
  using assms by (induction cs) auto

lemma snd_set_delete_derived:
  assumes "list_all (\<lambda>c. snd c = f (fst c)) cs" and "inj_on f (insert a (fst ` set cs))"
  shows "snd ` set (AList.delete a cs) = snd ` set cs - {f a}"
  using assms
proof (induction cs)
  case Nil
  show ?case by simp
next
  case (Cons c cs)
  have inj: "inj_on f (insert a (fst ` set cs))"
    using Cons.prems(2) by (rule inj_on_subset) auto
  have all: "list_all (\<lambda>c. snd c = f (fst c)) cs"
    using Cons.prems(1) by simp
  have IH: "snd ` set (AList.delete a cs) = snd ` set cs - {f a}"
    using Cons.IH [OF all inj] .
  have c: "snd c = f (fst c)"
    using Cons.prems(1) by simp
  show ?case
  proof (cases "fst c = a")
    case True
    with c IH show ?thesis by (cases c) auto
  next
    case False
    have "f (fst c) \<noteq> f a"
      using Cons.prems(2) False by (simp add: inj_on_def)
    with c IH False show ?thesis by (cases c) auto
  qed
qed

subsection \<open>The \<open>PLAYER_UPDATE\<close> branch of the host\<close>

text \<open>
  For a registered sender with a stored dictionary and a dictionary payload, the branch
  merges the payload over the snapshot and forwards the received bytes to every other key
  of the client map, once each.
\<close>

lemma on_player_update_registered:
  assumes "map_of (clients st) addr = Some pid"
    and "map_of (players st) pid = Some (JObj s)"
    and "getitem packet ''data'' = Inr (JObj u)"
  shows "on_player_update st packet data addr =
          (st\<lparr>players :=
                AList.update pid (JObj (fold (\<lambda>(k, v). AList.update k v) u s)) (players st)\<rparr>,
           broadcast (clients st) data addr, None)"
  using assms by (simp add: on_player_update_def)

lemma on_player_update_merges:
  assumes "map_of (clients st) addr = Some pid"
    and "map_of (players st) pid = Some (JObj s)"
    and "getitem packet ''data'' = Inr (JObj u)"
    and "distinct (map fst u)"
  shows "\<exists>d. map_of (players (fst (on_player_update st packet data addr))) pid = Some (JObj d)
           \<and> map_of d = map_of s ++ map_of u"
  using assms
  by (simp add: on_player_update_registered update_conv' map_of_fold_update)

lemma broadcast_targets:
  "map snd (broadcast cs data addr) = filter (\<lambda>a. a \<noteq> addr) (map fst cs)"
  by (induction cs) (auto simp: broadcast_def)

lemma broadcast_payload: "set (map fst (broadcast cs data addr)) \<subseteq> {data}"
  by (auto simp: broadcast_def)

lemma on_player_update_forwards:
  assumes "map_of (clients st) addr = Some pid"
    and "map_of (players st) pid = Some (JObj s)"
    and "getitem packet ''data'' = Inr (JObj u)"
    and "distinct (map fst (clients st))"
  shows "set (map snd (fst (snd (on_player_update st packet data addr))))
           = fst ` set (clients st) - {addr}"
    and "distinct (map snd (fst (snd (on_player_update st packet data addr))))"
    and "set (map fst (fst (snd (on_player_update st packet data addr)))) \<subseteq> {data}"
  using assms
  by (auto simp: on_player_update_registered broadcast_targets broadcast_payload
      simp del: map_map intro: distinct_filter) (auto simp: broadcast_def)

subsection \<open>The \<open>CONNECT\<close> and \<open>DISCONNECT\<close> branches of the host\<close>

lemma on_connect_clients:
  "clients (fst (on_connect txt ident now st packet addr))
     = AList.update addr (ident addr) (clients st)"
  by (simp add: on_connect_def Let_def create_packet_raises split: sum.splits)

lemma on_disconnect_absent:
  assumes "map_of (clients st) addr = Some pid"
  shows "map_of (clients (fst (on_disconnect st addr))) addr = None
       \<and> map_of (players (fst (on_disconnect st addr))) pid = None"
  using assms by (auto simp: on_disconnect_def Let_def delete_conv' split: option.splits)

lemma on_disconnect_unregistered:
  "map_of (clients st) addr = None \<Longrightarrow> on_disconnect st addr = (st, [], None)"
  by (simp add: on_disconnect_def)

subsection \<open>The branches and the registry invariant\<close>

lemma ids_derived_lookup:
  "ids_derived ident st \<Longrightarrow> map_of (clients st) addr = Some pid \<Longrightarrow> pid = ident addr"
  by (auto simp: ids_derived_def list_all_iff dest!: map_of_SomeD)

lemma on_connect_keeps_registry:
  assumes "ids_derived ident st" and "reg_inv st" and "getitem packet ''data'' = Inr d"
  shows "reg_inv (fst (on_connect txt ident now st packet addr))
       \<and> ids_derived ident (fst (on_connect txt ident now st packet addr))"
  using assms
  by (simp add: on_connect_def Let_def create_packet_raises reg_inv_def ids_derived_def
      snd_set_update_derived list_all_update_derived dom_update)

lemma on_player_update_clients:
  "clients (fst (on_player_update st packet data addr)) = clients st"
  by (simp add: on_player_update_def Let_def
      split: option.splits json.splits sum.splits prod.splits)

lemma on_player_update_keys:
  "fst ` set (players (fst (on_player_update st packet data addr))) = fst ` set (players st)"
proof (cases "map_of (clients st) addr")
  case None
  then show ?thesis by (simp add: on_player_update_def)
next
  case (Some pid)
  show ?thesis
  proof (cases "map_of (players st) pid")
    case None
    with Some show ?thesis by (simp add: on_player_update_def)
  next
    case inner: (Some snapshot)
    then have "insert pid (fst ` set (players st)) = fst ` set (players st)"
      by (simp add: insert_absorb map_of_in_keys)
    with Some inner show ?thesis
      by (simp add: on_player_update_def dom_update Let_def
          split: json.splits sum.splits prod.splits option.splits)
  qed
qed

lemma on_player_update_keeps_registry:
  assumes "reg_inv st"
  shows "reg_inv (fst (on_player_update st packet data addr))"
  using assms by (simp add: reg_inv_def on_player_update_clients on_player_update_keys)

lemma on_disconnect_keeps_registry:
  assumes "inj_on ident (insert addr (fst ` set (clients st)))"
    and "ids_derived ident st" and "reg_inv st"
  shows "reg_inv (fst (on_disconnect st addr))"
proof (cases "map_of (clients st) addr")
  case None
  with assms(3) show ?thesis by (simp add: on_disconnect_def)
next
  case (Some pid)
  have pid: "pid = ident addr"
    using assms(2) Some by (rule ids_derived_lookup)
  have "pid \<in> snd ` set (clients st)"
    using Some by (force dest!: map_of_SomeD)
  then have "pid \<in> fst ` set (players st)"
    using assms(3) by (simp add: reg_inv_def)
  then obtain v where v: "map_of (players st) pid = Some v"
    by (metis map_of_eq_None_iff not_Some_eq)
  have "snd ` set (AList.delete addr (clients st)) = snd ` set (clients st) - {pid}"
    using snd_set_delete_derived [of ident "clients st" addr] assms(1,2) pid
    by (simp add: ids_derived_def)
  with Some v assms(3) show ?thesis
    by (simp add: on_disconnect_def Let_def reg_inv_def fst_set_delete)
qed

subsection \<open>The branches of the consumer\<close>


lemma on_world_state_inserts:
  assumes "getitem msg ''data'' = Inr (JObj [(pid, v)])" and "map_of reg pid = None"
  shows "on_world_state reg msg = (AList.update pid v reg, None)"
  using assms by (simp add: on_world_state_def world_entry_def)





section \<open>The claims\<close>

subsection \<open>Packet codec\<close>

text \<open>
  Claim C1: decoding the bytes produced by encoding a valid envelope gives the envelope
  back. The encoder yields no bytes at all: for every packet type, time stamp and payload
  \<open>_create_packet\<close> raises \<open>TypeError\<close>, because the dictionary it serializes holds the
  member of \<open>PacketType\<close> itself. This includes the packet \<open>connect_client\<close> builds, so no
  envelope has an encoded form to decode.
\<close>

theorem create_packet_never_encodes:
  "create_packet txt packet_type now data = Inl TypeError"
  by (rule create_packet_raises)

text \<open>
  Claim C2, as stated, fails: the one-byte datagram \<open>5\<close> is no envelope, yet
  \<open>_parse_packet\<close> returns the number 5 without any error, the client loop puts it on the
  message queue, and \<open>_handle_network_message\<close> then raises \<open>TypeError\<close> on \<open>msg['type']\<close>.
\<close>

theorem decode_accepts_non_envelope:
  "parse_packet decode_table ''5'' = Inr (JInt 5)
   \<and> client_step decode_table [] ''5'' = ([JInt 5], None)
   \<and> handle_network_message [] (JInt 5) = ([], Some TypeError)"
  by (simp add: parse_packet_def client_step_def handle_network_message_def example_defs)

text \<open>
  Claim C2, amended: for every byte string that \<open>json.loads(data.decode())\<close> rejects,
  \<open>_parse_packet\<close> raises that exception, and both receive loops catch it at the loop
  boundary: the host keeps its client map and registry and sends nothing, the client
  keeps its message queue.
\<close>

theorem decode_failure_contained:
  assumes "loads data = Inl e"
  shows "parse_packet loads data = Inl e
       \<and> server_step loads txt ident st (data, addr, now) = (st, [], Some e)
       \<and> client_step loads queue data = (queue, Some e)"
  using assms by (simp add: parse_packet_def server_step_def client_step_def)

text \<open>The amended claim at the truncated datagram, received by a host that knows \<open>peer_a\<close>.\<close>

theorem decode_failure_contained_witness:
  "decode_table bytes_truncated = Inl JSONDecodeError
   \<and> parse_packet decode_table bytes_truncated = Inl JSONDecodeError
   \<and> server_step decode_table dumps_one_field md5_prefix host_a (bytes_truncated, peer_a, 0)
       = (host_a, [], Some JSONDecodeError)
   \<and> client_step decode_table [] bytes_truncated = ([], Some JSONDecodeError)"
proof -
  have h: "decode_table bytes_truncated = Inl JSONDecodeError"
    by (simp add: example_defs)
  show ?thesis
    using h decode_failure_contained
      [of decode_table bytes_truncated JSONDecodeError dumps_one_field md5_prefix host_a
          peer_a 0 "[]"]
    by simp
qed




subsection \<open>Relay host\<close>

text \<open>
  Claim C4: a \<open>PLAYER_UPDATE\<close> from a registered peer is merged into its stored snapshot,
  so that \<open>{x: 1, y: 2}\<close> followed by \<open>{x: 5}\<close> gives \<open>{x: 5, y: 2}\<close>. The branch that
  merges is never entered. From the initial state, a \<open>CONNECT\<close> carrying \<open>{x: 1, y: 2}\<close>
  and a \<open>PLAYER_UPDATE\<close> carrying \<open>{x: 5}\<close>, both from \<open>peer_a\<close>, leave the registry empty;
  and a host that does hold \<open>{x: 1, y: 2}\<close> for \<open>peer_a\<close> still holds it after the update.
\<close>

theorem update_not_merged:
  "server_loop decode_table dumps_one_field md5_prefix initial_host
     [(bytes_connect_xy, peer_a, 0), (bytes_update_x5, peer_a, 0)] = (initial_host, [])
   \<and> server_step decode_table dumps_one_field md5_prefix host_a (bytes_update_x5, peer_a, 0)
       = (host_a, [], None)"
  by (simp add: server_loop_inert server_step_def parse_packet_def example_defs)

text \<open>
  Claim C5: with peers A, B and C registered, a \<open>PLAYER_UPDATE\<close> from A is forwarded
  unchanged to exactly B and C. Nothing is forwarded: three \<open>CONNECT\<close> datagrams and the
  update register nobody and send nothing, and a host that does know the three peers
  sends nothing either.
\<close>

theorem update_not_forwarded:
  "server_loop decode_table dumps_one_field md5_prefix initial_host
     [(bytes_connect_player, peer_a, 0), (bytes_connect_player, peer_b, 0),
      (bytes_connect_player, peer_c, 0), (bytes_update_xy, peer_a, 0)] = (initial_host, [])
   \<and> server_step decode_table dumps_one_field md5_prefix host_abc (bytes_update_xy, peer_a, 0)
       = (host_abc, [], None)"
  by (simp add: server_loop_inert server_step_def parse_packet_def example_defs)

text \<open>
  Claim C6: a \<open>PLAYER_UPDATE\<close> from an address with no registered identity is dropped
  silently. For every envelope from such an address the loop body leaves the client map
  and the registry as they were, sends nothing and raises nothing; and so does the
  \<open>PLAYER_UPDATE\<close> branch on its own, by its test \<open>addr in self.clients\<close>.
\<close>

theorem unregistered_update_dropped:
  assumes "map_of (clients st) addr = None"
    and "loads data = Inr packet"
    and "getitem packet ''type'' = Inr ty"
  shows "server_step loads txt ident st (data, addr, now) = (st, [], None)
       \<and> on_player_update st packet data addr = (st, [], None)"
  using assms by (simp add: server_step_def parse_packet_def on_player_update_def)

text \<open>Claim C6 at an update from \<open>stranger\<close>, received by the host that knows three peers.\<close>

theorem unregistered_update_dropped_witness:
  "map_of (clients host_abc) stranger = None
   \<and> decode_table bytes_update_xy = Inr packet_update_xy
   \<and> getitem packet_update_xy ''type'' = Inr (JInt 3)
   \<and> server_step decode_table dumps_one_field md5_prefix host_abc (bytes_update_xy, stranger, 0)
       = (host_abc, [], None)
   \<and> on_player_update host_abc packet_update_xy bytes_update_xy stranger = (host_abc, [], None)"
proof -
  have h1: "map_of (clients host_abc) stranger = None"
    by (simp add: example_defs)
  have h2: "decode_table bytes_update_xy = Inr packet_update_xy"
    by (simp add: example_defs)
  have h3: "getitem packet_update_xy ''type'' = Inr (JInt 3)"
    by (simp add: example_defs)
  show ?thesis
    using h1 h2 h3 unregistered_update_dropped
      [of host_abc stranger decode_table bytes_update_xy packet_update_xy "JInt 3"
          dumps_one_field md5_prefix 0]
    by simp
qed

text \<open>
  Claim C7: after a \<open>CONNECT\<close> and then a \<open>DISCONNECT\<close> from the address of a peer, the
  peer is absent from the client map and its identity from the registry; a \<open>DISCONNECT\<close>
  from an address that is not registered changes nothing and is no error.

  The \<open>DISCONNECT\<close> branch run after the \<open>CONNECT\<close> branch removes both entries, in
  every host state and for every packet. The \<open>DISCONNECT\<close> branch and the loop body
  leave the state of a host that does not know the address untouched. And in every run
  of the loop from the initial state that ends with two datagrams from the address, the
  address and its identity are absent afterwards.
\<close>

theorem connect_then_disconnect_absent:
  "map_of (clients (fst (on_disconnect (fst (on_connect txt ident now st packet addr)) addr)))
      addr = None
   \<and> map_of (players (fst (on_disconnect (fst (on_connect txt ident now st packet addr)) addr)))
        (ident addr) = None
   \<and> (map_of (clients st) addr = None \<longrightarrow>
        on_disconnect st addr = (st, [], None)
        \<and> fst (server_step loads txt ident st (data, addr, now)) = st)
   \<and> map_of (clients (fst (server_loop loads txt ident initial_host
                              (dgs @ [(data1, addr, t1), (data2, addr, t2)])))) addr = None
   \<and> map_of (players (fst (server_loop loads txt ident initial_host
                              (dgs @ [(data1, addr, t1), (data2, addr, t2)])))) (ident addr) = None"
proof -
  have "map_of (clients (fst (on_connect txt ident now st packet addr))) addr = Some (ident addr)"
    by (simp add: on_connect_clients update_conv')
  from on_disconnect_absent [OF this] show ?thesis
    by (simp add: on_disconnect_unregistered server_loop_inert initial_host_def)
qed

text \<open>Claim C7 at \<open>stranger\<close> and the host that knows the three other peers.\<close>

theorem connect_then_disconnect_absent_witness:
  "map_of (clients host_abc) stranger = None
   \<and> on_disconnect host_abc stranger = (host_abc, [], None)
   \<and> fst (server_step decode_table dumps_one_field md5_prefix host_abc
             (bytes_disconnect, stranger, 0)) = host_abc
   \<and> map_of (clients (fst (on_disconnect
        (fst (on_connect dumps_one_field md5_prefix 0 host_abc packet_connect_player stranger))
        stranger))) stranger = None
   \<and> map_of (players (fst (on_disconnect
        (fst (on_connect dumps_one_field md5_prefix 0 host_abc packet_connect_player stranger))
        stranger))) (md5_prefix stranger) = None"
proof -
  have h: "map_of (clients host_abc) stranger = None"
    by (simp add: example_defs)
  show ?thesis
    using h connect_then_disconnect_absent
      [of dumps_one_field md5_prefix 0 host_abc packet_connect_player stranger decode_table
          bytes_disconnect "[]" bytes_connect_player 0 bytes_disconnect 0]
    by simp
qed

text \<open>
  Claim C8, as stated, fails twice. After the \<open>CONNECT\<close> that \<open>connect_client\<close> announces
  and three updates \<open>{x: 10, y: 20}\<close>, the host holds no snapshot for the peer at all,
  since no branch is entered. And when the \<open>PLAYER_UPDATE\<close> branch does run three times
  on the snapshot \<open>{name: Player}\<close> of a registered peer, the result keeps the name: it is
  \<open>{name: Player, x: 10, y: 20}\<close>, not \<open>{x: 10, y: 20}\<close>.
\<close>

theorem three_updates_counterexample:
  "map_of (players (fst (server_loop decode_table dumps_one_field md5_prefix initial_host
      [(bytes_connect_player, peer_a, 0), (bytes_update_xy, peer_a, 0),
       (bytes_update_xy, peer_a, 0), (bytes_update_xy, peer_a, 0)]))) (md5_prefix peer_a) = None
   \<and> map_of (players (fst (on_player_update (fst (on_player_update (fst (on_player_update
        host_named packet_update_xy bytes_update_xy peer_a))
        packet_update_xy bytes_update_xy peer_a))
        packet_update_xy bytes_update_xy peer_a))) (md5_prefix peer_a)
      = Some (JObj [(''name'', JStr ''Player''), (''x'', JInt 10), (''y'', JInt 20)])
   \<and> JObj [(''name'', JStr ''Player''), (''x'', JInt 10), (''y'', JInt 20)]
      \<noteq> JObj [(''x'', JInt 10), (''y'', JInt 20)]"
  by (simp add: server_loop_inert initial_host_def on_player_update_def example_defs)

text \<open>
  Claim C8, amended: when the \<open>PLAYER_UPDATE\<close> branch runs three times in a row with the
  payload \<open>{x: 10, y: 20}\<close> for a registered peer whose stored snapshot is the dictionary
  \<open>s\<close>, the host state after the third run is the state after the first, and the stored
  snapshot is \<open>s\<close> with \<open>x\<close> and \<open>y\<close> set to 10 and 20: nothing is accumulated or
  duplicated, and every other field of \<open>s\<close> is retained.
\<close>

theorem repeated_update_idempotent:
  assumes "map_of (clients st) addr = Some pid"
    and "map_of (players st) pid = Some (JObj s)"
    and "getitem packet ''data'' = Inr (JObj [(''x'', JInt 10), (''y'', JInt 20)])"
  shows "fst (on_player_update (fst (on_player_update (fst (on_player_update
           st packet data addr)) packet data addr)) packet data addr)
         = fst (on_player_update st packet data addr)
       \<and> map_of (players (fst (on_player_update st packet data addr))) pid
         = Some (JObj (AList.update ''y'' (JInt 20) (AList.update ''x'' (JInt 10) s)))
       \<and> map_of (AList.update ''y'' (JInt 20) (AList.update ''x'' (JInt 10) s))
         = (map_of s)(''x'' \<mapsto> JInt 10, ''y'' \<mapsto> JInt 20)"
proof -
  let ?s1 = "AList.update ''y'' (JInt 20) (AList.update ''x'' (JInt 10) s)"
  let ?st1 = "st\<lparr>players := AList.update pid (JObj ?s1) (players st)\<rparr>"
  have first: "on_player_update st packet data addr = (?st1, broadcast (clients st) data addr, None)"
    using on_player_update_registered [OF assms] by simp
  have c1: "map_of (clients ?st1) addr = Some pid"
    using assms(1) by simp
  have p1: "map_of (players ?st1) pid = Some (JObj ?s1)"
    by (simp add: update_conv')
  have fix_s: "AList.update ''y'' (JInt 20) (AList.update ''x'' (JInt 10) ?s1) = ?s1"
    by (simp add: update_triv update_conv')
  have fix_p: "AList.update pid (JObj ?s1) (players ?st1) = players ?st1"
    using p1 by (rule update_triv)
  have again: "on_player_update ?st1 packet data addr
                 = (?st1, broadcast (clients ?st1) data addr, None)"
    using on_player_update_registered [OF c1 p1 assms(3)] fix_s fix_p by simp
  show ?thesis
    using first again p1 by (simp add: update_conv')
qed

text \<open>The amended claim at \<open>peer_a\<close>, registered with the snapshot \<open>{name: Player}\<close>.\<close>

theorem repeated_update_idempotent_witness:
  "map_of (clients host_named) peer_a = Some ''e7291c23''
   \<and> map_of (players host_named) ''e7291c23'' = Some (JObj [(''name'', JStr ''Player'')])
   \<and> getitem packet_update_xy ''data'' = Inr (JObj [(''x'', JInt 10), (''y'', JInt 20)])
   \<and> map_of (players (fst (on_player_update host_named packet_update_xy bytes_update_xy peer_a)))
        ''e7291c23''
      = Some (JObj [(''name'', JStr ''Player''), (''x'', JInt 10), (''y'', JInt 20)])"
proof -
  have h1: "map_of (clients host_named) peer_a = Some ''e7291c23''"
    by (simp add: example_defs)
  have h2: "map_of (players host_named) ''e7291c23'' = Some (JObj [(''name'', JStr ''Player'')])"
    by (simp add: example_defs)
  have h3: "getitem packet_update_xy ''data'' = Inr (JObj [(''x'', JInt 10), (''y'', JInt 20)])"
    by (simp add: example_defs)
  show ?thesis
    using h1 h2 h3 repeated_update_idempotent [OF h1 h2 h3, of bytes_update_xy]
    by simp
qed

subsection \<open>Consumer\<close>




subsection \<open>Registry invariant\<close>



end
